theory Spec2Isabelle
  imports Complex_Main "HOL-Library.Multiset" "HOL-Library.Finite_Map" "HOL-Library.Word"
begin

section \<open>Data model of the real-time transcription service (plugin2.py)\<close>

text \<open>
  Audio payloads are Python \<open>bytes\<close>: lists of 8-bit values. Sequence numbers and
  counters are Python integers, hence unbounded \<open>int\<close>.
\<close>

type_synonym bytes = "8 word list"

text \<open>
  The exceptions the modelled code can raise. \<open>ValueError\<close> is what
  \<open>deque(maxlen=n)\<close> raises for a negative \<open>n\<close>; the two \<open>Exception\<close>
  constructors stand for the two \<open>raise Exception(...)\<close> statements of
  \<open>ConnectionManager.create_session\<close> and carry the value formatted into the message.
\<close>

datatype error =
    ValueError
  | Exception_max_connections int
  | Exception_session_exists string

subsection \<open>collections.deque\<close>

text \<open>
  A deque is its content, left to right, together with its \<open>maxlen\<close> attribute
  (\<open>None\<close> for an unbounded deque). \<open>deque(maxlen=n)\<close> is \<open>deque_maxlen n\<close>,
  \<open>deque(iterable)\<close> is \<open>deque_of\<close>: a deque built from an iterable alone is
  unbounded.
\<close>

record 'a deque =
  items :: "'a list"
  maxlen :: "nat option"

definition deque_maxlen :: "nat \<Rightarrow> 'a deque" where
  "deque_maxlen n = \<lparr>items = [], maxlen = Some n\<rparr>"

definition deque_of :: "'a list \<Rightarrow> 'a deque" where
  "deque_of xs = \<lparr>items = xs, maxlen = None\<rparr>"

text \<open>
  \<open>append\<close> adds on the right; a bounded deque then discards from the left whatever
  exceeds \<open>maxlen\<close> (so a deque of \<open>maxlen\<close> 0 stays empty).
\<close>

definition deque_append :: "'a deque \<Rightarrow> 'a \<Rightarrow> 'a deque" where
  "deque_append d x =
     (case maxlen d of
        None \<Rightarrow> d\<lparr>items := items d @ [x]\<rparr>
      | Some n \<Rightarrow> d\<lparr>items := drop (length (items d @ [x]) - n) (items d @ [x])\<rparr>)"


subsection \<open>JitterBuffer\<close>

record JitterBuffer =
  buffer :: "(int \<times> bytes) deque"
  sequence_number :: int
  expected_seq :: int

text \<open>
  \<open>JitterBuffer.__init__\<close>. \<open>JitterBuffer_new\<close> is the constructor at a
  non-negative \<open>max_size\<close>; at a negative one \<open>deque(maxlen=max_size)\<close> raises.
\<close>

definition JitterBuffer_new :: "nat \<Rightarrow> JitterBuffer" where
  "JitterBuffer_new max_size =
     \<lparr>buffer = deque_maxlen max_size, sequence_number = 0, expected_seq = 0\<rparr>"

definition JitterBuffer_init :: "int \<Rightarrow> error + JitterBuffer" where
  "JitterBuffer_init max_size =
     (if max_size < 0 then Inl ValueError else Inr (JitterBuffer_new (nat max_size)))"

text \<open>
  \<open>JitterBuffer.add_frame\<close>, in the order of the source: append the pair to the
  deque; rebind \<open>self.buffer\<close> to a new deque holding the pairs sorted by sequence
  number (\<open>sorted\<close> is stable, as \<open>sort_key\<close> is); if the deque is non-empty and its
  leftmost pair carries \<open>expected_seq\<close>, pop it, advance \<open>expected_seq\<close> and return
  the payload. \<open>add_frame_pop\<close> keeps the whole popped pair \<open>(seq, data)\<close>, of which
  \<open>add_frame\<close> returns the payload.
\<close>

definition add_frame_pop ::
  "JitterBuffer \<Rightarrow> bytes \<Rightarrow> int \<Rightarrow> (int \<times> bytes) option \<times> JitterBuffer" where
  "add_frame_pop jb audio_data seq_num =
     (let appended = deque_append (buffer jb) (seq_num, audio_data);
          sorted_buf = deque_of (sort_key fst (items appended))
      in case items sorted_buf of
           [] \<Rightarrow> (None, jb\<lparr>buffer := sorted_buf\<rparr>)
         | p # rest \<Rightarrow>
             if fst p = expected_seq jb
             then (Some p, jb\<lparr>buffer := sorted_buf\<lparr>items := rest\<rparr>,
                              expected_seq := expected_seq jb + 1\<rparr>)
             else (None, jb\<lparr>buffer := sorted_buf\<rparr>))"

definition add_frame ::
  "JitterBuffer \<Rightarrow> bytes \<Rightarrow> int \<Rightarrow> bytes option \<times> JitterBuffer" where
  "add_frame jb audio_data seq_num =
     (case add_frame_pop jb audio_data seq_num of (r, jb') \<Rightarrow> (map_option snd r, jb'))"

definition get_buffer_size :: "JitterBuffer \<Rightarrow> nat" where
  "get_buffer_size jb = length (items (buffer jb))"

text \<open>
  A sequence of \<open>add_frame\<close> calls, each given as \<open>(audio_data, seq_num)\<close>:
  \<open>add_frames\<close> returns what every call returned, in call order, and the final
  buffer; \<open>released\<close> returns the popped pairs in release order.
\<close>

fun add_frames ::
  "JitterBuffer \<Rightarrow> (bytes \<times> int) list \<Rightarrow> bytes option list \<times> JitterBuffer" where
  "add_frames jb [] = ([], jb)"
| "add_frames jb (c # cs) =
     (case add_frame jb (fst c) (snd c) of
        (r, jb') \<Rightarrow> (case add_frames jb' cs of (rs, jb'') \<Rightarrow> (r # rs, jb'')))"

fun released ::
  "JitterBuffer \<Rightarrow> (bytes \<times> int) list \<Rightarrow> (int \<times> bytes) list \<times> JitterBuffer" where
  "released jb [] = ([], jb)"
| "released jb (c # cs) =
     (case add_frame_pop jb (fst c) (snd c) of
        (r, jb') \<Rightarrow>
          (case released jb' cs of
             (rs, jb'') \<Rightarrow> ((case r of None \<Rightarrow> rs | Some p \<Rightarrow> p # rs), jb'')))"

subsection \<open>UserSession\<close>

record ConnectionStats =
  bytes_received :: int
  frames_processed :: int
  reconnect_count :: int
  avg_latency :: real
  jitter_buffer_size :: int

definition ConnectionStats_init :: ConnectionStats where
  "ConnectionStats_init =
     \<lparr>bytes_received = 0, frames_processed = 0, reconnect_count = 0,
      avg_latency = 0, jitter_buffer_size = 0\<rparr>"

text \<open>\<open>queue.Queue(maxsize=n)\<close> of \<open>(timestamp, audio_data)\<close> pairs.\<close>

record Queue =
  queue :: "(real \<times> bytes) list"
  maxsize :: int

definition Queue_init :: "int \<Rightarrow> Queue" where
  "Queue_init n = \<lparr>queue = [], maxsize = n\<rparr>"

record 'ws UserSession =
  session_id :: string
  connection_id :: string
  websocket :: 'ws
  jitter_buffer :: JitterBuffer
  audio_queue :: Queue
  language :: string
  translate_to :: "string option"
  display_subtitles :: bool
  enable_translation :: bool
  created_at :: real
  stats :: ConnectionStats

text \<open>
  The dataclass constructor called with its five required fields, as
  \<open>create_session\<close> calls it: the other fields take their declared defaults, and
  \<open>__post_init__\<close> fills \<open>created_at\<close> with \<open>datetime.now()\<close> (the argument
  \<open>now\<close>) and \<open>stats\<close> with a fresh \<open>ConnectionStats()\<close>.
\<close>

definition UserSession_init ::
  "string \<Rightarrow> string \<Rightarrow> 'ws \<Rightarrow> JitterBuffer \<Rightarrow> Queue \<Rightarrow> real \<Rightarrow> 'ws UserSession" where
  "UserSession_init sid cid ws jb q now =
     \<lparr>session_id = sid, connection_id = cid, websocket = ws, jitter_buffer = jb,
      audio_queue = q, language = ''en'', translate_to = None,
      display_subtitles = False, enable_translation = False,
      created_at = now, stats = ConnectionStats_init\<rparr>"

subsection \<open>ConnectionManager\<close>

text \<open>
  The three registries are Python dicts, modelled as finite maps; \<open>len\<close> of a dict is
  the number of its keys.
\<close>

record 'ws ConnectionManager =
  max_connections :: int
  active_sessions :: "(string, 'ws UserSession) fmap"
  connection_to_session :: "(string, string) fmap"
  websocket_to_connection :: "('ws, string) fmap"

definition dict_len :: "('k, 'v) fmap \<Rightarrow> int" where
  "dict_len m = int (fcard (fmdom m))"

definition ConnectionManager_init :: "int \<Rightarrow> 'ws ConnectionManager" where
  "ConnectionManager_init n =
     \<lparr>max_connections = n, active_sessions = fmempty,
      connection_to_session = fmempty, websocket_to_connection = fmempty\<rparr>"

text \<open>
  What \<open>create_session\<close> reads from its environment: \<open>time_str\<close> is the decimal text
  of \<open>int(time.time())\<close>, \<open>uuid_session\<close> and \<open>uuid_connection\<close> are the texts of the
  two \<open>uuid.uuid4()\<close> calls, \<open>datetime_now\<close> is \<open>datetime.now()\<close>.
\<close>

record environment =
  time_str :: string
  uuid_session :: string
  uuid_connection :: string
  datetime_now :: real

text \<open>
  \<open>ConnectionManager.create_session\<close>. The result pairs what the call returns or
  raises with the manager as the call leaves it; both \<open>raise\<close> statements come before
  the first assignment to a registry.
\<close>

definition create_session ::
  "'ws ConnectionManager \<Rightarrow> environment \<Rightarrow> 'ws \<Rightarrow> string option \<Rightarrow> string option \<Rightarrow>
     (error + 'ws UserSession) \<times> 'ws ConnectionManager" where
  "create_session cm env ws sid_arg cid_arg =
     (if dict_len (active_sessions cm) \<ge> max_connections cm
      then (Inl (Exception_max_connections (max_connections cm)), cm)
      else
        let sid = (case sid_arg of
                     None \<Rightarrow> ''session_'' @ time_str env @ ''_'' @ take 8 (uuid_session env)
                   | Some s \<Rightarrow> s);
            cid = (case cid_arg of None \<Rightarrow> uuid_connection env | Some c \<Rightarrow> c)
        in if sid |\<in>| fmdom (active_sessions cm)
           then (Inl (Exception_session_exists sid), cm)
           else
             let session = UserSession_init sid cid ws (JitterBuffer_new 10)
                             (Queue_init 1000) (datetime_now env)
             in (Inr session,
                 cm\<lparr>active_sessions := fmupd sid session (active_sessions cm),
                    connection_to_session := fmupd cid sid (connection_to_session cm),
                    websocket_to_connection := fmupd ws cid (websocket_to_connection cm)\<rparr>))"

text \<open>
  \<open>ConnectionManager.remove_session\<close>. \<open>if not connection_id\<close> is true for a missing
  key and for the empty string alike.
\<close>

definition remove_session ::
  "'ws ConnectionManager \<Rightarrow> 'ws \<Rightarrow> bool \<times> 'ws ConnectionManager" where
  "remove_session cm ws =
     (case fmlookup (websocket_to_connection cm) ws of
        None \<Rightarrow> (False, cm)
      | Some cid \<Rightarrow>
          if cid = [] then (False, cm)
          else (case fmlookup (connection_to_session cm) cid of
                  None \<Rightarrow> (False, cm)
                | Some sid \<Rightarrow>
                    if sid = [] then (False, cm)
                    else (True,
                          cm\<lparr>active_sessions := fmdrop sid (active_sessions cm),
                             connection_to_session := fmdrop cid (connection_to_session cm),
                             websocket_to_connection := fmdrop ws (websocket_to_connection cm)\<rparr>)))"

definition get_active_session_count :: "'ws ConnectionManager \<Rightarrow> int" where
  "get_active_session_count cm = dict_len (active_sessions cm)"

text \<open>A history of calls on one manager, each with the environment it ran in.\<close>

datatype 'ws manager_op =
    Create_session environment 'ws "string option" "string option"
  | Remove_session 'ws

fun manager_step :: "'ws ConnectionManager \<Rightarrow> 'ws manager_op \<Rightarrow> 'ws ConnectionManager" where
  "manager_step cm (Create_session env ws sid cid) = snd (create_session cm env ws sid cid)"
| "manager_step cm (Remove_session ws) = snd (remove_session cm ws)"

definition manager_calls ::
  "'ws ConnectionManager \<Rightarrow> 'ws manager_op list \<Rightarrow> 'ws ConnectionManager" where
  "manager_calls cm cs = foldl manager_step cm cs"

subsection \<open>The handshake of handle_client\<close>

text \<open>
  The parsed init message. Each field is \<open>None\<close> when the key is absent from the JSON
  object, and otherwise carries a value of the type the \<open>UserSession\<close> field it is
  stored in declares.
\<close>

record init_message =
  init_type :: "string option"
  init_session_id :: "string option"
  init_language :: "string option"
  init_translate_to :: "string option"
  init_display_subtitles :: "bool option"

datatype 'ws handshake =
    Init_rejected
  | Init_raised error
  | Init_accepted "'ws UserSession"

text \<open>
  \<open>handle_client\<close> from the check of the message type to the end of the session
  configuration. The session object is the one stored in \<open>active_sessions\<close>, so the
  assignments to its fields are visible through the registry as well.
\<close>

definition handle_client_init ::
  "'ws ConnectionManager \<Rightarrow> environment \<Rightarrow> 'ws \<Rightarrow> init_message \<Rightarrow>
     'ws handshake \<times> 'ws ConnectionManager" where
  "handle_client_init cm env ws init_data =
     (if init_type init_data \<noteq> Some ''init'' then (Init_rejected, cm)
      else
        case create_session cm env ws (init_session_id init_data) None of
          (Inl e, cm') \<Rightarrow> (Init_raised e, cm')
        | (Inr session, cm') \<Rightarrow>
            let s1 = session\<lparr>language :=
                       (case init_language init_data of None \<Rightarrow> ''en'' | Some l \<Rightarrow> l)\<rparr>;
                s2 = s1\<lparr>translate_to := init_translate_to init_data\<rparr>;
                s3 = s2\<lparr>enable_translation :=
                       (case translate_to s2 of None \<Rightarrow> False | Some t \<Rightarrow> t \<noteq> [])\<rparr>;
                s4 = s3\<lparr>display_subtitles :=
                       (case init_display_subtitles init_data of None \<Rightarrow> True | Some b \<Rightarrow> b)\<rparr>
            in (Init_accepted s4,
                cm'\<lparr>active_sessions := fmupd (session_id s4) s4 (active_sessions cm')\<rparr>))"

subsection \<open>The per-session audio-processing loop\<close>

text \<open>
  One poll of the session's queue: \<open>audio_queue.get(timeout=0.1)\<close> either raises
  \<open>Empty\<close> or returns a \<open>(timestamp, audio_data)\<close> pair.
\<close>

datatype poll = Empty | Item real bytes

text \<open>
  What the awaited \<open>_transcribe_session_audio\<close> does when the loop calls it. The call
  catches every \<open>Exception\<close> in its own body, so either it returns, or an exception
  that is not an \<open>Exception\<close> escapes from it: \<open>asyncio.CancelledError\<close>, which
  \<open>task.cancel()\<close> in \<open>_cleanup_session\<close> throws into the pending await.
\<close>

datatype outcome = Returns | Raises

text \<open>
  One iteration of the loop of \<open>_process_session_audio\<close> on the accumulator
  \<open>audio_buffer\<close>, given the poll and what the transcription call does if this
  iteration makes it: the batch handed to \<open>_transcribe_session_audio\<close> in this
  iteration, if any, and the accumulator afterwards. The bare \<open>except\<close> of the loop
  encloses the poll, the call and \<open>audio_buffer.clear()\<close>: it swallows \<open>Empty\<close>,
  and it swallows what escapes from the call, in which case the \<open>clear\<close> after the
  call is skipped.
\<close>

definition process_step :: "bytes \<Rightarrow> poll \<Rightarrow> outcome \<Rightarrow> bytes option \<times> bytes" where
  "process_step audio_buffer p t =
     (case p of
        Empty \<Rightarrow> (None, audio_buffer)
      | Item timestamp audio_data \<Rightarrow>
          if audio_data \<noteq> []
          then let extended = audio_buffer @ audio_data
               in if length extended \<ge> 8192
                  then (case t of
                          Returns \<Rightarrow> (Some extended, [])
                        | Raises \<Rightarrow> (Some extended, extended))
                  else (None, extended)
          else (None, audio_buffer))"

text \<open>
  The loop, one iteration per poll: the batches dispatched, in order, and the final
  accumulator. \<open>process_session_audio\<close> starts from the empty \<open>bytearray()\<close>.
\<close>

fun process_loop :: "bytes \<Rightarrow> (poll \<times> outcome) list \<Rightarrow> bytes list \<times> bytes" where
  "process_loop audio_buffer [] = ([], audio_buffer)"
| "process_loop audio_buffer (i # is) =
     (case process_step audio_buffer (fst i) (snd i) of
        (out, audio_buffer') \<Rightarrow>
          (case process_loop audio_buffer' is of
             (outs, final) \<Rightarrow> ((case out of None \<Rightarrow> outs | Some b \<Rightarrow> b # outs), final)))"

definition process_session_audio :: "(poll \<times> outcome) list \<Rightarrow> bytes list \<times> bytes" where
  "process_session_audio is = process_loop [] is"

text \<open>The bytes a poll delivers to the accumulator.\<close>

fun poll_bytes :: "poll \<Rightarrow> bytes" where
  "poll_bytes Empty = []"
| "poll_bytes (Item timestamp audio_data) = audio_data"

section \<open>The jitter buffer\<close>

subsection \<open>One call of add_frame\<close>

lemma mset_drop_le: "mset (drop n xs) \<subseteq># mset xs"
proof -
  have "mset xs = mset (take n xs) + mset (drop n xs)"
    by (metis append_take_drop_id mset_append)
  then show ?thesis by simp
qed

lemma deque_append_mset: "mset (items (deque_append dq x)) \<subseteq># add_mset x (mset (items dq))"
proof (cases "maxlen dq")
  case None
  then show ?thesis by (simp add: deque_append_def)
next
  case (Some n)
  have "mset (drop (length (items dq @ [x]) - n) (items dq @ [x])) \<subseteq># mset (items dq @ [x])"
    by (rule mset_drop_le)
  with Some show ?thesis by (simp add: deque_append_def)
qed

lemma deque_append_unbounded:
  "maxlen dq = None \<Longrightarrow> items (deque_append dq x) = items dq @ [x]"
  by (simp add: deque_append_def)

lemma add_frame_pop_None:
  assumes "add_frame_pop jb d s = (None, jb')"
  shows "expected_seq jb' = expected_seq jb"
    and "sequence_number jb' = sequence_number jb"
    and "maxlen (buffer jb') = None"
    and "items (buffer jb') = sort_key fst (items (deque_append (buffer jb) (s, d)))"
  using assms
  by (auto simp: add_frame_pop_def Let_def deque_of_def split: list.splits if_splits)

lemma add_frame_pop_Some:
  assumes "add_frame_pop jb d s = (Some p, jb')"
  shows "fst p = expected_seq jb"
    and "expected_seq jb' = expected_seq jb + 1"
    and "sequence_number jb' = sequence_number jb"
    and "maxlen (buffer jb') = None"
    and "p # items (buffer jb') = sort_key fst (items (deque_append (buffer jb) (s, d)))"
  using assms
  by (auto simp: add_frame_pop_def Let_def deque_of_def split: list.splits if_splits)

lemma add_frame_pop_mset:
  assumes "add_frame_pop jb d s = (r, jb')"
  shows "(case r of None \<Rightarrow> {#} | Some p \<Rightarrow> {#p#}) + mset (items (buffer jb')) \<subseteq># add_mset (s, d) (mset (items (buffer jb)))"
proof (cases r)
  case None
  with assms have "items (buffer jb') = sort_key fst (items (deque_append (buffer jb) (s, d)))"
    by (simp add: add_frame_pop_None)
  then have "mset (items (buffer jb')) = mset (items (deque_append (buffer jb) (s, d)))"
    by simp
  with None show ?thesis by (simp add: deque_append_mset)
next
  case (Some p)
  with assms have "p # items (buffer jb') = sort_key fst (items (deque_append (buffer jb) (s, d)))"
    by (simp add: add_frame_pop_Some)
  then have "mset (p # items (buffer jb')) = mset (items (deque_append (buffer jb) (s, d)))"
    by simp
  then have "add_mset p (mset (items (buffer jb'))) \<subseteq># add_mset (s, d) (mset (items (buffer jb)))"
    by (simp add: deque_append_mset)
  with Some show ?thesis by simp
qed

lemma map_upt_shift:
  "map (\<lambda>i. e + int i) [0..<Suc n] = e # map (\<lambda>i. e + 1 + int i) [0..<n]"
proof -
  have "[0..<Suc n] = 0 # map Suc [0..<n]"
    by (simp only: map_Suc_upt upt_conv_Cons [of 0 "Suc n"] zero_less_Suc)
  then have "map (\<lambda>i. e + int i) [0..<Suc n] = map (\<lambda>i. e + int i) (0 # map Suc [0..<n])"
    by (rule arg_cong)
  also have "\<dots> = e # map (\<lambda>i. e + 1 + int i) [0..<n]"
    by (simp add: o_def)
  finally show ?thesis .
qed

lemma released_order:
  "released jb calls = (rel, jb') \<Longrightarrow>
     map fst rel = map (\<lambda>i. expected_seq jb + int i) [0..<length rel] \<and>
     expected_seq jb' = expected_seq jb + int (length rel) \<and>
     length rel \<le> length calls"
proof (induction calls arbitrary: jb rel jb')
  case Nil
  then show ?case by simp
next
  case (Cons c cs)
  obtain r jb1 where step: "add_frame_pop jb (fst c) (snd c) = (r, jb1)"
    by (cases "add_frame_pop jb (fst c) (snd c)")
  obtain rs jb2 where rest: "released jb1 cs = (rs, jb2)"
    by (cases "released jb1 cs")
  from Cons.IH [OF rest]
  have ih: "map fst rs = map (\<lambda>i. expected_seq jb1 + int i) [0..<length rs]"
    "expected_seq jb2 = expected_seq jb1 + int (length rs)" "length rs \<le> length cs"
    by simp_all
  from Cons.prems step rest
  have res: "rel = (case r of None \<Rightarrow> rs | Some p \<Rightarrow> p # rs)" "jb' = jb2"
    by simp_all
  show ?case
  proof (cases r)
    case None
    with step have "expected_seq jb1 = expected_seq jb"
      by (simp add: add_frame_pop_None)
    with None res ih show ?thesis by simp
  next
    case (Some p)
    with step have e: "fst p = expected_seq jb" "expected_seq jb1 = expected_seq jb + 1"
      by (simp_all add: add_frame_pop_Some)
    have "map (\<lambda>i. expected_seq jb + int i) [0..<Suc (length rs)] =
          expected_seq jb # map (\<lambda>i. expected_seq jb + 1 + int i) [0..<length rs]"
      by (rule map_upt_shift)
    with Some res ih e show ?thesis by (simp del: upt_Suc)
  qed
qed


lemma released_mset:
  "released jb calls = (rel, jb') \<Longrightarrow>
     mset rel + mset (items (buffer jb')) \<subseteq>#
       mset (map prod.swap calls) + mset (items (buffer jb))"
proof (induction calls arbitrary: jb rel jb')
  case Nil
  then show ?case by simp
next
  case (Cons c cs)
  obtain r jb1 where step: "add_frame_pop jb (fst c) (snd c) = (r, jb1)"
    by (cases "add_frame_pop jb (fst c) (snd c)")
  obtain rs jb2 where rest: "released jb1 cs = (rs, jb2)"
    by (cases "released jb1 cs")
  from Cons.prems step rest
  have res: "rel = (case r of None \<Rightarrow> rs | Some p \<Rightarrow> p # rs)" "jb' = jb2"
    by simp_all
  let ?R = "case r of None \<Rightarrow> {#} | Some p \<Rightarrow> {#p#}"
  have rel: "mset rel = ?R + mset rs"
    using res by (cases r) simp_all
  have "mset rs + mset (items (buffer jb2)) \<subseteq>#
          mset (map prod.swap cs) + mset (items (buffer jb1))"
    by (rule Cons.IH [OF rest])
  then have "?R + (mset rs + mset (items (buffer jb2))) \<subseteq>#
          ?R + (mset (map prod.swap cs) + mset (items (buffer jb1)))"
    by (simp only: mset_subset_eq_mono_add_left_cancel)
  also have "\<dots> = mset (map prod.swap cs) + (?R + mset (items (buffer jb1)))"
    by (simp only: ac_simps)
  also have "\<dots> \<subseteq># mset (map prod.swap cs) +
               add_mset (snd c, fst c) (mset (items (buffer jb)))"
    using add_frame_pop_mset [OF step] by (simp only: mset_subset_eq_mono_add_left_cancel)
  also have "\<dots> = mset (map prod.swap (c # cs)) + mset (items (buffer jb))"
    by (cases c) simp
  finally show ?case using rel res by (simp only: ac_simps)
qed

lemma released_add_frames:
  "snd (add_frames jb cs) = snd (released jb cs) \<and>
   filter (\<lambda>r. r \<noteq> None) (fst (add_frames jb cs)) = map (Some \<circ> snd) (fst (released jb cs))"
proof (induction cs arbitrary: jb)
  case Nil
  then show ?case by simp
next
  case (Cons c cs)
  obtain r jb1 where step: "add_frame_pop jb (fst c) (snd c) = (r, jb1)"
    by (cases "add_frame_pop jb (fst c) (snd c)")
  from Cons.IH [of jb1] step show ?case
    by (cases r) (auto simp: add_frame_def split: prod.splits)
qed

lemma length_add_frames: "length (fst (add_frames jb cs)) = length cs"
  by (induction cs arbitrary: jb) (auto split: prod.splits, metis fst_conv)

lemmas jb_eval = add_frame_def add_frame_pop_def deque_append_def deque_of_def deque_maxlen_def JitterBuffer_new_def JitterBuffer_init_def
  get_buffer_size_def Let_def

subsection \<open>Release order\<close>

text \<open>
  C1. Take any sequence of \<open>add_frame\<close> calls on a freshly constructed JitterBuffer.
  Every call returns at most one frame (one optional payload per call), and the payloads
  returned are those of the popped pairs \<open>rel\<close>, in order. The sequence numbers of the
  released pairs are \<open>0, 1, 2, ...\<close> without gap or repetition, and \<open>expected_seq\<close>
  ends as the number of releases. No frame is released twice: the released pairs
  together with the pending ones form a sub-multiset of the pairs passed in. In the state
  reached, a call that returns nothing leaves \<open>expected_seq\<close> alone, and a call that
  releases a pair releases one whose sequence number is \<open>expected_seq\<close> at that
  moment and advances \<open>expected_seq\<close> by exactly 1.
\<close>

theorem jitter_buffer_release_order:
  assumes init: "JitterBuffer_init max_size = Inr jb0"
    and run: "released jb0 calls = (rel, jb)"
  shows "length (fst (add_frames jb0 calls)) = length calls
       \<and> filter (\<lambda>r. r \<noteq> None) (fst (add_frames jb0 calls)) = map (Some \<circ> snd) rel
       \<and> map fst rel = map int [0..<length rel]
       \<and> distinct (map fst rel)
       \<and> expected_seq jb = int (length rel)
       \<and> mset rel + mset (items (buffer jb)) \<subseteq># mset (map prod.swap calls)
       \<and> (\<forall>d s jb'.
            (add_frame_pop jb d s = (None, jb') \<longrightarrow> expected_seq jb' = expected_seq jb) \<and>
            (\<forall>p. add_frame_pop jb d s = (Some p, jb') \<longrightarrow>
                   fst p = expected_seq jb \<and> expected_seq jb' = expected_seq jb + 1))"
proof -
  from init have fresh: "expected_seq jb0 = 0" "items (buffer jb0) = []"
    by (auto simp: JitterBuffer_init_def JitterBuffer_new_def deque_maxlen_def split: if_splits)
  from released_order [OF run] fresh
  have ord: "map fst rel = map int [0..<length rel]" "expected_seq jb = int (length rel)"
    by simp_all
  have "distinct (map int [0..<length rel])"
    by (simp add: distinct_map)
  with ord have dist: "distinct (map fst rel)" by simp
  from released_mset [OF run] fresh
  have sub: "mset rel + mset (items (buffer jb)) \<subseteq># mset (map prod.swap calls)"
    by simp
  have outs: "filter (\<lambda>r. r \<noteq> None) (fst (add_frames jb0 calls)) = map (Some \<circ> snd) rel"
    using released_add_frames [of jb0 calls] run by simp
  have step: "\<forall>d s jb'.
            (add_frame_pop jb d s = (None, jb') \<longrightarrow> expected_seq jb' = expected_seq jb) \<and>
            (\<forall>p. add_frame_pop jb d s = (Some p, jb') \<longrightarrow>
                   fst p = expected_seq jb \<and> expected_seq jb' = expected_seq jb + 1)"
    by (auto simp: add_frame_pop_None add_frame_pop_Some)
  from length_add_frames outs ord dist sub step show ?thesis by blast
qed

theorem jitter_buffer_release_order_witness:
  "JitterBuffer_init 10 = Inr (JitterBuffer_new 10)
   \<and> released (JitterBuffer_new 10) [([7], 1), ([8], 0), ([9], 3), ([6], 0)] =
       ([(0, [8]), (1, [7])],
        \<lparr>buffer = \<lparr>items = [(0, [6]), (3, [9])], maxlen = None\<rparr>,
         sequence_number = 0, expected_seq = 2\<rparr>)
   \<and> fst (add_frames (JitterBuffer_new 10) [([7], 1), ([8], 0), ([9], 3), ([6], 0)]) =
       [None, Some [8], Some [7], None]
   \<and> map fst [(0 :: int, [8 :: 8 word]), (1, [7])] = map int [0..<2]
   \<and> mset [(0, [8]), (1, [7])] + mset [(0 :: int, [6 :: 8 word]), (3, [9])]
         \<subseteq># mset (map prod.swap [([7], 1), ([8], 0), ([9], 3), ([6], 0)])"
proof -
  have h1: "JitterBuffer_init 10 = Inr (JitterBuffer_new 10)"
    by (simp add: JitterBuffer_init_def)
  have h2: "released (JitterBuffer_new 10) [([7], 1), ([8], 0), ([9], 3), ([6], 0)] =
       ([(0, [8]), (1, [7])],
        \<lparr>buffer = \<lparr>items = [(0, [6]), (3, [9])], maxlen = None\<rparr>,
         sequence_number = 0, expected_seq = 2\<rparr>)"
    by (simp add: jb_eval)
  have h3: "fst (add_frames (JitterBuffer_new 10) [([7], 1), ([8], 0), ([9], 3), ([6], 0)]) =
       [None, Some [8], Some [7], None]"
    by (simp add: jb_eval)
  note order = jitter_buffer_release_order [OF h1 h2]
  from order have a: "map fst [(0 :: int, [8 :: 8 word]), (1, [7])] =
      map int [0..<length [(0 :: int, [8 :: 8 word]), (1, [7])]]"
    by blast
  from order have b: "mset [(0, [8]), (1, [7])] +
      mset (items (buffer \<lparr>buffer = \<lparr>items = [(0 :: int, [6 :: 8 word]), (3, [9])], maxlen = None\<rparr>,
         sequence_number = 0, expected_seq = 2\<rparr>))
        \<subseteq># mset (map prod.swap [([7], 1), ([8], 0), ([9], 3), ([6], 0)])"
    by blast
  show ?thesis
  proof (intro conjI)
    show "map fst [(0 :: int, [8 :: 8 word]), (1, [7])] = map int [0..<2]"
      using a by (simp add: numeral_2_eq_2)
    show "mset [(0, [8]), (1, [7])] + mset [(0 :: int, [6 :: 8 word]), (3, [9])]
         \<subseteq># mset (map prod.swap [([7], 1), ([8], 0), ([9], 3), ([6], 0)])"
      using b by simp
  qed (rule h1 h2 h3)+
qed

subsection \<open>Out-of-order delivery\<close>

text \<open>
  C6. A fresh JitterBuffer of the default capacity receives frames with the sequence
  numbers 2, 0, 1 in that order. The first call returns nothing, the second returns
  the payload of frame 0, the third the payload of frame 1; afterwards
  \<open>expected_seq\<close> is 2 and frame 2 is the one pending entry.
\<close>

theorem reorder_two_zero_one:
  "add_frames (JitterBuffer_new 10) [(d2, 2), (d0, 0), (d1, 1)] =
     ([None, Some d0, Some d1],
      \<lparr>buffer = \<lparr>items = [(2, d2)], maxlen = None\<rparr>,
       sequence_number = 0, expected_seq = 2\<rparr>)"
  by (simp add: jb_eval)

subsection \<open>Capacity\<close>

text \<open>
  C2. A JitterBuffer of the default capacity 10 receives eleven frames with the sequence
  numbers 1 to 11. None is released, and none is evicted: \<open>get_buffer_size\<close> is 11,
  and the oldest-inserted frame, number 1, is still pending. The bound of
  \<open>deque(maxlen=max_size)\<close> is lost in the first call, which rebinds \<open>self.buffer\<close>
  to \<open>deque(sorted(...))\<close>, an unbounded deque.
\<close>

theorem default_capacity_exceeded:
  "get_buffer_size (snd (add_frames (JitterBuffer_new 10)
      [(a, 1), (b, 2), (c, 3), (d, 4), (e, 5), (f, 6), (g, 7), (h, 8), (i, 9), (j, 10),
       (k, 11)])) = 11
   \<and> (1, a) \<in> set (items (buffer (snd (add_frames (JitterBuffer_new 10)
      [(a, 1), (b, 2), (c, 3), (d, 4), (e, 5), (f, 6), (g, 7), (h, 8), (i, 9), (j, 10),
       (k, 11)]))))
   \<and> maxlen (buffer (snd (add_frames (JitterBuffer_new 10) [(a, 1)]))) = None"
  by (simp add: jb_eval)

text \<open>
  C3. A JitterBuffer of capacity 2 receives frames with the sequence numbers 5, 6, 7.
  All three calls return nothing and \<open>expected_seq\<close> stays 0, but the third insert
  evicts nothing: the frame with sequence number 5 is still pending, beside 6 and 7.
\<close>

theorem capacity_two_five_six_seven:
  "add_frames (JitterBuffer_new 2) [(a, 5), (b, 6), (c, 7)] =
     ([None, None, None],
      \<lparr>buffer = \<lparr>items = [(5, a), (6, b), (7, c)], maxlen = None\<rparr>,
       sequence_number = 0, expected_seq = 0\<rparr>)"
  by (simp add: jb_eval)

subsection \<open>Reached states have room\<close>








subsection \<open>Late frames\<close>





subsection \<open>Frames with the same sequence number\<close>




section \<open>The audio-processing loop\<close>

subsection \<open>Iterations whose transcription call returns\<close>

lemma process_step_None:
  assumes "length acc < 8192" and "process_step acc p t = (None, acc')"
  shows "acc' = acc @ poll_bytes p" and "length acc' < 8192"
  using assms
  by (cases p; cases t; auto simp: process_step_def Let_def split: if_splits)+

lemma process_step_Some:
  assumes "process_step acc p Returns = (Some b, acc')"
  shows "b = acc @ poll_bytes p" and "8192 \<le> length b" and "acc' = []"
  using assms by (cases p; auto simp: process_step_def Let_def split: if_splits)+

text \<open>
  As long as every transcription call returns, the loop batches as intended: every
  batch holds at least 8192 bytes, the batches followed by the final accumulator are
  the bytes polled, in arrival order, and the accumulator is below the threshold after
  every iteration.
\<close>

lemma process_loop_returning:
  "process_loop acc steps = (batches, final) \<Longrightarrow> length acc < 8192 \<Longrightarrow>
   \<forall>i \<in> set steps. snd i = Returns \<Longrightarrow>
     (\<forall>b \<in> set batches. 8192 \<le> length b) \<and>
     concat batches @ final = acc @ concat (map (\<lambda>i. poll_bytes (fst i)) steps) \<and>
     length final < 8192"
proof (induction steps arbitrary: acc batches final)
  case Nil
  then show ?case by simp
next
  case (Cons i rest)
  from Cons.prems(3) have ret: "snd i = Returns" and ret': "\<forall>j \<in> set rest. snd j = Returns"
    by simp_all
  obtain out acc1 where step: "process_step acc (fst i) Returns = (out, acc1)"
    by (cases "process_step acc (fst i) Returns")
  obtain outs fin where tail: "process_loop acc1 rest = (outs, fin)"
    by (cases "process_loop acc1 rest")
  from Cons.prems(1) step tail ret
  have res: "batches = (case out of None \<Rightarrow> outs | Some b \<Rightarrow> b # outs)" "final = fin"
    by simp_all
  have small: "length acc1 < 8192"
    using step Cons.prems(2) by (cases out) (auto dest: process_step_None process_step_Some)
  from Cons.IH [OF tail small ret']
  have ih: "\<forall>b \<in> set outs. 8192 \<le> length b"
    "concat outs @ fin = acc1 @ concat (map (\<lambda>i. poll_bytes (fst i)) rest)" "length fin < 8192"
    by simp_all
  show ?case
  proof (cases out)
    case None
    with step Cons.prems(2) have "acc1 = acc @ poll_bytes (fst i)"
      by (auto dest: process_step_None)
    with None res ih show ?thesis by simp
  next
    case (Some b)
    with step have "b = acc @ poll_bytes (fst i)" "8192 \<le> length b" "acc1 = []"
      by (auto dest: process_step_Some)
    with Some res ih show ?thesis by simp
  qed
qed

subsection \<open>A cancelled transcription call\<close>

text \<open>
  C9. The queue delivers a frame of 8192 bytes and then a frame of one byte; the
  transcription call of the first iteration is cancelled while it is awaited, the one
  of the second returns. The first iteration dispatches the 8192 bytes, as the claim
  says it must at the threshold, but does not leave the accumulator empty: the bare
  \<open>except\<close> swallows the cancellation and \<open>audio_buffer.clear()\<close> is skipped, so
  the iteration completes with 8192 bytes accumulated. The second iteration then
  dispatches those same 8192 bytes again, with the new byte after them. The batches of
  the run hold 16385 bytes, of which 8193 were polled.
\<close>

theorem cancelled_dispatch_keeps_accumulator:
  "process_step [] (Item 0 (replicate 8192 1)) Raises =
     (Some (replicate 8192 1), replicate 8192 1)
   \<and> process_session_audio
       [(Item 0 (replicate 8192 1), Raises), (Item 1 [2], Returns)] =
     ([replicate 8192 1, replicate 8192 1 @ [2]], [])
   \<and> length (concat [replicate 8192 (1 :: 8 word), replicate 8192 1 @ [2]]) = 16385
   \<and> length (concat (map (\<lambda>i. poll_bytes (fst i))
       [(Item 0 (replicate 8192 1), Raises), (Item 1 [2], Returns)])) = 8193"
  by (simp add: process_session_audio_def process_step_def Let_def)

section \<open>The connection manager\<close>

lemma dict_len_fmupd_fresh:
  "k |\<notin>| fmdom m \<Longrightarrow> dict_len (fmupd k v m) = dict_len m + 1"
  by (simp add: dict_len_def fcard_finsert_disjoint)

lemma dict_len_fmdrop: "dict_len (fmdrop k m) \<le> dict_len m"
  by (simp add: dict_len_def fcard_fminus1_le)

lemma create_session_full:
  "max_connections cm \<le> get_active_session_count cm \<Longrightarrow>
     create_session cm env ws sid cid = (Inl (Exception_max_connections (max_connections cm)), cm)"
  by (simp add: create_session_def get_active_session_count_def)

lemma create_session_Inr:
  assumes "create_session cm env ws sid cid = (Inr s, cm')"
  shows "get_active_session_count cm' = get_active_session_count cm + 1"
    and "get_active_session_count cm' \<le> max_connections cm'"
    and "max_connections cm' = max_connections cm"
  using assms
  by (auto simp: create_session_def get_active_session_count_def Let_def dict_len_fmupd_fresh
      split: if_splits)

lemma create_session_Inl:
  "create_session cm env ws sid cid = (Inl e, cm') \<Longrightarrow> cm' = cm"
  by (auto simp: create_session_def Let_def split: if_splits)

lemma remove_session_count:
  "get_active_session_count (snd (remove_session cm ws)) \<le> get_active_session_count cm
   \<and> max_connections (snd (remove_session cm ws)) = max_connections cm"
  by (auto simp: remove_session_def get_active_session_count_def dict_len_fmdrop
      split: option.splits)

lemma manager_step_bound:
  assumes "get_active_session_count cm \<le> max_connections cm"
  shows "get_active_session_count (manager_step cm c) \<le> max_connections (manager_step cm c)"
proof (cases c)
  case (Create_session env ws sid cid)
  obtain res cm' where r: "create_session cm env ws sid cid = (res, cm')"
    by (cases "create_session cm env ws sid cid")
  show ?thesis
  proof (cases res)
    case (Inl e)
    with r have "cm' = cm" by (simp add: create_session_Inl)
    with r Create_session assms show ?thesis by simp
  next
    case (Inr s)
    with r have "get_active_session_count cm' \<le> max_connections cm'"
      by (auto dest: create_session_Inr(2))
    with r Create_session show ?thesis by simp
  qed
next
  case (Remove_session ws)
  with assms remove_session_count [of cm ws] show ?thesis by simp
qed

lemma manager_calls_bound:
  "get_active_session_count cm \<le> max_connections cm \<Longrightarrow>
     get_active_session_count (manager_calls cm cs) \<le> max_connections (manager_calls cm cs)"
  unfolding manager_calls_def
  by (induction cs arbitrary: cm) (simp_all add: manager_step_bound)

lemma manager_step_max: "max_connections (manager_step cm c) = max_connections cm"
proof (cases c)
  case (Create_session env ws sid cid)
  then show ?thesis
    by (auto simp: create_session_def Let_def)
next
  case (Remove_session ws)
  then show ?thesis by (simp add: remove_session_count)
qed

lemma manager_calls_max: "max_connections (manager_calls cm cs) = max_connections cm"
  unfolding manager_calls_def
  by (induction cs arbitrary: cm) (simp_all add: manager_step_max)

lemmas cm_eval = create_session_def remove_session_def get_active_session_count_def
  ConnectionManager_init_def dict_len_def fcard_fempty fcard_finsert_if manager_calls_def Let_def

subsection \<open>The connection ceiling\<close>

text \<open>
  C7, as the code has it. \<open>create_session\<close> called on a manager whose
  active-session count has reached \<open>max_connections\<close> raises, and the manager it
  leaves is the manager it found: the count and the three registries are unchanged. A
  \<open>create_session\<close> that returns a session raises the count by exactly 1, to at most
  \<open>max_connections\<close>. In a manager constructed with a ceiling \<open>n\<close> that is not
  negative, the count never exceeds \<open>n\<close>, whatever calls of \<open>create_session\<close> and
  \<open>remove_session\<close> follow.
\<close>

theorem session_count_bounded:
  fixes cm :: "'ws ConnectionManager" and calls :: "'ws manager_op list"
  shows "(max_connections cm \<le> get_active_session_count cm \<longrightarrow>
      create_session cm env ws sid cid =
        (Inl (Exception_max_connections (max_connections cm)), cm))
   \<and> (\<forall>s cm'. create_session cm env ws sid cid = (Inr s, cm') \<longrightarrow>
          get_active_session_count cm' = get_active_session_count cm + 1
        \<and> get_active_session_count cm' \<le> max_connections cm')
   \<and> (0 \<le> n \<longrightarrow>
        get_active_session_count (manager_calls (ConnectionManager_init n) calls) \<le> n)"
proof -
  have "0 \<le> n \<longrightarrow>
        get_active_session_count (manager_calls (ConnectionManager_init n) calls) \<le> n"
  proof
    assume "0 \<le> n"
    then have "get_active_session_count (ConnectionManager_init n :: 'ws ConnectionManager)
                 \<le> max_connections (ConnectionManager_init n :: 'ws ConnectionManager)"
      by (simp add: get_active_session_count_def ConnectionManager_init_def dict_len_def fcard_fempty)
    from manager_calls_bound [OF this, of calls]
    show "get_active_session_count (manager_calls (ConnectionManager_init n) calls) \<le> n"
      by (simp add: manager_calls_max ConnectionManager_init_def)
  qed
  moreover have "max_connections cm \<le> get_active_session_count cm \<longrightarrow>
      create_session cm env ws sid cid =
        (Inl (Exception_max_connections (max_connections cm)), cm)"
    by (rule impI) (rule create_session_full)
  moreover have "\<forall>s cm'. create_session cm env ws sid cid = (Inr s, cm') \<longrightarrow>
          get_active_session_count cm' = get_active_session_count cm + 1
        \<and> get_active_session_count cm' \<le> max_connections cm'"
  proof (intro allI impI conjI)
    fix s cm'
    assume ok: "create_session cm env ws sid cid = (Inr s, cm')"
    show "get_active_session_count cm' = get_active_session_count cm + 1"
      by (rule create_session_Inr(1) [OF ok])
    show "get_active_session_count cm' \<le> max_connections cm'"
      by (rule create_session_Inr(2) [OF ok])
  qed
  ultimately show ?thesis by blast
qed

theorem session_count_bounded_witness:
  "get_active_session_count (ConnectionManager_init 1 :: nat ConnectionManager) = 0
   \<and> (\<exists>s. fst (create_session (ConnectionManager_init 1)
          \<lparr>time_str = ''0'', uuid_session = ''u'', uuid_connection = ''v'', datetime_now = 0\<rparr>
          (7 :: nat) (Some ''a'') None) = Inr s)
   \<and> get_active_session_count (snd (create_session (ConnectionManager_init 1)
          \<lparr>time_str = ''0'', uuid_session = ''u'', uuid_connection = ''v'', datetime_now = 0\<rparr>
          (7 :: nat) (Some ''a'') None)) = 1
   \<and> create_session (snd (create_session (ConnectionManager_init 1)
          \<lparr>time_str = ''0'', uuid_session = ''u'', uuid_connection = ''v'', datetime_now = 0\<rparr>
          (7 :: nat) (Some ''a'') None))
          \<lparr>time_str = ''1'', uuid_session = ''w'', uuid_connection = ''x'', datetime_now = 1\<rparr>
          8 (Some ''b'') None =
        (Inl (Exception_max_connections 1),
         snd (create_session (ConnectionManager_init 1)
          \<lparr>time_str = ''0'', uuid_session = ''u'', uuid_connection = ''v'', datetime_now = 0\<rparr>
          (7 :: nat) (Some ''a'') None))
   \<and> get_active_session_count (manager_calls (ConnectionManager_init 1)
        [Create_session
           \<lparr>time_str = ''0'', uuid_session = ''u'', uuid_connection = ''v'', datetime_now = 0\<rparr>
           (7 :: nat) (Some ''a'') None,
         Create_session
           \<lparr>time_str = ''1'', uuid_session = ''w'', uuid_connection = ''x'', datetime_now = 1\<rparr>
           8 (Some ''b'') None]) \<le> 1"
proof -
  let ?env0 = "\<lparr>time_str = ''0'', uuid_session = ''u'', uuid_connection = ''v'', datetime_now = 0\<rparr>"
  let ?env1 = "\<lparr>time_str = ''1'', uuid_session = ''w'', uuid_connection = ''x'', datetime_now = 1\<rparr>"
  let ?cm0 = "ConnectionManager_init 1 :: nat ConnectionManager"
  let ?cm1 = "snd (create_session ?cm0 ?env0 7 (Some ''a'') None)"
  let ?calls = "[Create_session ?env0 (7 :: nat) (Some ''a'') None,
                 Create_session ?env1 8 (Some ''b'') None]"
  have empty: "get_active_session_count ?cm0 = 0"
    by (simp add: cm_eval)
  obtain s where ok: "create_session ?cm0 ?env0 7 (Some ''a'') None = (Inr s, ?cm1)"
    by (simp add: cm_eval)
  have full: "max_connections ?cm1 \<le> get_active_session_count ?cm1"
    by (simp add: cm_eval)
  note first = session_count_bounded [of ?cm0 ?env0 7 "Some ''a''" None 1 ?calls]
  note second = session_count_bounded [of ?cm1 ?env1 8 "Some ''b''" None 1 ?calls]
  from first ok empty have one: "get_active_session_count ?cm1 = 1"
    by auto
  from second full have rejected:
    "create_session ?cm1 ?env1 8 (Some ''b'') None =
       (Inl (Exception_max_connections (max_connections ?cm1)), ?cm1)"
    by blast
  have "max_connections ?cm1 = 1"
    by (simp add: cm_eval)
  with rejected have rejected':
    "create_session ?cm1 ?env1 8 (Some ''b'') None = (Inl (Exception_max_connections 1), ?cm1)"
    by simp
  from first have bound: "get_active_session_count (manager_calls ?cm0 ?calls) \<le> 1"
    by simp
  from ok have "fst (create_session ?cm0 ?env0 7 (Some ''a'') None) = Inr s"
    by (metis fst_conv)
  then have ex: "\<exists>s. fst (create_session ?cm0 ?env0 7 (Some ''a'') None) = Inr s"
    by (rule exI)
  from empty ex one rejected' bound show ?thesis
    by (intro conjI)
qed

text \<open>
  The bound as stated for every manager fails at a negative ceiling, which the
  constructor accepts as it accepts any integer: the empty manager holds 0 sessions,
  more than \<open>-1\<close>, and stays so after a \<open>create_session\<close>, which raises.
\<close>

theorem negative_ceiling_counterexample:
  "get_active_session_count (ConnectionManager_init (- 1) :: nat ConnectionManager) = 0
   \<and> max_connections (ConnectionManager_init (- 1) :: nat ConnectionManager) = - 1
   \<and> \<not> get_active_session_count (ConnectionManager_init (- 1) :: nat ConnectionManager)
         \<le> max_connections (ConnectionManager_init (- 1) :: nat ConnectionManager)
   \<and> \<not> get_active_session_count (manager_calls (ConnectionManager_init (- 1))
           [Create_session
              \<lparr>time_str = ''0'', uuid_session = ''u'', uuid_connection = ''v'', datetime_now = 0\<rparr>
              (7 :: nat) (Some ''a'') None])
         \<le> max_connections (manager_calls (ConnectionManager_init (- 1))
           [Create_session
              \<lparr>time_str = ''0'', uuid_session = ''u'', uuid_connection = ''v'', datetime_now = 0\<rparr>
              (7 :: nat) (Some ''a'') None])"
  by (simp add: cm_eval)

subsection \<open>Duplicate session ids\<close>

text \<open>
  C8. On a manager below its ceiling, \<open>create_session\<close> with a \<open>session_id\<close> that
  is a key of \<open>active_sessions\<close> raises, and the manager it leaves is the manager it
  found: none of the three registries is touched and the count is unchanged.
\<close>

theorem duplicate_session_rejected:
  assumes "get_active_session_count cm < max_connections cm"
    and "sid |\<in>| fmdom (active_sessions cm)"
  shows "create_session cm env ws (Some sid) cid = (Inl (Exception_session_exists sid), cm)"
  using assms by (simp add: create_session_def get_active_session_count_def Let_def)

theorem duplicate_session_rejected_witness:
  "get_active_session_count (snd (create_session (ConnectionManager_init 2)
        \<lparr>time_str = ''0'', uuid_session = ''u'', uuid_connection = ''v'', datetime_now = 0\<rparr>
        (7 :: nat) (Some ''a'') None)) <
     max_connections (snd (create_session (ConnectionManager_init 2)
        \<lparr>time_str = ''0'', uuid_session = ''u'', uuid_connection = ''v'', datetime_now = 0\<rparr>
        (7 :: nat) (Some ''a'') None))
   \<and> ''a'' |\<in>| fmdom (active_sessions (snd (create_session (ConnectionManager_init 2)
        \<lparr>time_str = ''0'', uuid_session = ''u'', uuid_connection = ''v'', datetime_now = 0\<rparr>
        (7 :: nat) (Some ''a'') None)))
   \<and> create_session (snd (create_session (ConnectionManager_init 2)
        \<lparr>time_str = ''0'', uuid_session = ''u'', uuid_connection = ''v'', datetime_now = 0\<rparr>
        (7 :: nat) (Some ''a'') None))
        \<lparr>time_str = ''1'', uuid_session = ''w'', uuid_connection = ''x'', datetime_now = 1\<rparr>
        8 (Some ''a'') None =
       (Inl (Exception_session_exists ''a''),
        snd (create_session (ConnectionManager_init 2)
        \<lparr>time_str = ''0'', uuid_session = ''u'', uuid_connection = ''v'', datetime_now = 0\<rparr>
        (7 :: nat) (Some ''a'') None))"
proof -
  let ?env0 = "\<lparr>time_str = ''0'', uuid_session = ''u'', uuid_connection = ''v'', datetime_now = 0\<rparr>"
  let ?env1 = "\<lparr>time_str = ''1'', uuid_session = ''w'', uuid_connection = ''x'', datetime_now = 1\<rparr>"
  let ?cm1 = "snd (create_session (ConnectionManager_init 2 :: nat ConnectionManager)
                 ?env0 7 (Some ''a'') None)"
  have below: "get_active_session_count ?cm1 < max_connections ?cm1"
    by (simp add: cm_eval)
  have active: "''a'' |\<in>| fmdom (active_sessions ?cm1)"
    by (simp add: cm_eval)
  from below active duplicate_session_rejected [OF below active, of ?env1 8 None]
  show ?thesis by (intro conjI)
qed

section \<open>The handshake\<close>

text \<open>
  C10. When \<open>handle_client\<close> accepts an init message that has no
  \<open>display_subtitles\<close> key, the session it has created and configured, which is the
  one registered in \<open>active_sessions\<close>, has \<open>display_subtitles\<close> set to
  \<open>True\<close>; a \<open>UserSession\<close> constructed directly has it \<open>False\<close>.
\<close>

theorem init_without_display_subtitles:
  assumes omitted: "init_display_subtitles init_data = None"
    and accepted: "handle_client_init cm env ws init_data = (Init_accepted s, cm')"
  shows "display_subtitles s = True
       \<and> fmlookup (active_sessions cm') (session_id s) = Some s
       \<and> display_subtitles (UserSession_init sid cid ws' jb q now) = False"
proof -
  from accepted have ty: "init_type init_data = Some ''init''"
    by (cases "init_type init_data = Some ''init''") (simp_all add: handle_client_init_def)
  obtain res cm1 where cs: "create_session cm env ws (init_session_id init_data) None = (res, cm1)"
    by (cases "create_session cm env ws (init_session_id init_data) None")
  from accepted ty cs obtain session where res: "res = Inr session"
    by (cases res) (simp_all add: handle_client_init_def)
  from accepted ty cs res omitted
  have "display_subtitles s = True"
    and "cm' = cm1\<lparr>active_sessions := fmupd (session_id s) s (active_sessions cm1)\<rparr>"
    by (auto simp: handle_client_init_def Let_def)
  moreover have "display_subtitles (UserSession_init sid cid ws' jb q now) = False"
    by (simp add: UserSession_init_def)
  ultimately show ?thesis by simp
qed

theorem init_without_display_subtitles_witness:
  "init_display_subtitles
      \<lparr>init_type = Some ''init'', init_session_id = Some ''a'', init_language = None,
       init_translate_to = Some ''zh'', init_display_subtitles = None\<rparr> = None
   \<and> (\<exists>s cm'. handle_client_init (ConnectionManager_init 1)
         \<lparr>time_str = ''0'', uuid_session = ''u'', uuid_connection = ''v'', datetime_now = 0\<rparr>
         (7 :: nat)
         \<lparr>init_type = Some ''init'', init_session_id = Some ''a'', init_language = None,
          init_translate_to = Some ''zh'', init_display_subtitles = None\<rparr> =
         (Init_accepted s, cm')
       \<and> display_subtitles s = True
       \<and> fmlookup (active_sessions cm') (session_id s) = Some s)
   \<and> display_subtitles (UserSession_init ''a'' ''v'' (7 :: nat) (JitterBuffer_new 10)
        (Queue_init 1000) 0) = False"
proof -
  let ?env0 = "\<lparr>time_str = ''0'', uuid_session = ''u'', uuid_connection = ''v'', datetime_now = 0\<rparr>"
  let ?msg = "\<lparr>init_type = Some ''init'', init_session_id = Some ''a'', init_language = None,
       init_translate_to = Some ''zh'', init_display_subtitles = None\<rparr>"
  have omitted: "init_display_subtitles ?msg = None"
    by simp
  obtain s cm' where accepted:
    "handle_client_init (ConnectionManager_init 1) ?env0 (7 :: nat) ?msg = (Init_accepted s, cm')"
    by (simp add: handle_client_init_def cm_eval)
  note inst = init_without_display_subtitles [OF omitted accepted,
      of "''a''" "''v''" "7 :: nat" "JitterBuffer_new 10" "Queue_init 1000" 0]
  from inst accepted have "\<exists>s cm'. handle_client_init (ConnectionManager_init 1) ?env0 (7 :: nat) ?msg =
         (Init_accepted s, cm')
       \<and> display_subtitles s = True
       \<and> fmlookup (active_sessions cm') (session_id s) = Some s"
    by blast
  with omitted inst show ?thesis by blast
qed

end
